theory Spec2Isabelle
  imports Complex_Main "HOL-Library.Multiset" "HOL-Library.Product_Lexorder"
begin

section \<open>The plant growth chart service of main.py\<close>

text \<open>
  The service has one endpoint, \<open>get_growth_chart\<close>: it builds a database engine from the
  process environment, opens a connection, runs one SELECT with the lot identifier bound as
  a parameter, and turns the rows into a plotly figure. The database, the driver and the
  web framework are outside the repository; the calls into them are fields of a
  \<open>world\<close> record, so that every outcome such a call can have (a value or a raised
  exception) is an input of the model.
\<close>

subsection \<open>Exceptions\<close>

text \<open>
  The handlers of main.py distinguish three classes: \<open>SQLAlchemyError\<close>,
  \<open>Exception\<close> (which \<open>HTTPException\<close> is a subclass of) and everything else.
  \<open>Exception m\<close> is an instance of any other subclass of Exception,
  \<open>BaseException m\<close> a throwable that \<open>except Exception\<close> does not catch;
  \<open>m\<close> is what Python's \<open>str\<close> returns for it. \<open>HTTPException\<close> carries its
  status code and its detail.
\<close>

datatype exn =
    SQLAlchemyError string
  | HTTPException nat string
  | Exception string
  | BaseException string

fun is_Exception :: "exn \<Rightarrow> bool" where
  "is_Exception (BaseException m) = False"
| "is_Exception e = True"

subsection \<open>The outside world\<close>

datatype engine = Engine string

record 'd growth_log =
  lot_id :: int
  log_date :: 'd
  height_mm :: int

text \<open>
  \<open>getenv\<close> is the process environment; \<open>create_engine\<close> is SQLAlchemy's function of that
  name, on the URL; \<open>engine_connect\<close> is \<open>engine.connect()\<close>, with \<open>None\<close> for a
  connection that was established; \<open>execute_fault\<close> is the exception, if any, that running a
  statement with its bound parameters raises; \<open>growth_logs\<close> is the table of that name, in
  storage order; \<open>http_exception_str\<close> is the framework's \<open>str\<close> of an HTTPException.
  Dates are any linearly ordered type \<open>'d\<close>.
\<close>

record 'd world =
  getenv :: "string \<Rightarrow> string option"
  create_engine :: "string \<Rightarrow> exn + engine"
  engine_connect :: "engine \<Rightarrow> exn option"
  execute_fault :: "string \<Rightarrow> (string \<times> int) list \<Rightarrow> exn option"
  growth_logs :: "'d growth_log list"
  http_exception_str :: "nat \<Rightarrow> string \<Rightarrow> string"

text \<open>What the service does to the database, in order.\<close>

datatype event =
    Acquire engine
  | Execute string "(string \<times> int) list"
  | Release engine

fun str_exn :: "'d world \<Rightarrow> exn \<Rightarrow> string" where
  "str_exn w (SQLAlchemyError m) = m"
| "str_exn w (HTTPException sc d) = http_exception_str w sc d"
| "str_exn w (Exception m) = m"
| "str_exn w (BaseException m) = m"

subsection \<open>Python's \<open>str\<close> of an integer and of an optional string\<close>

definition digit_char :: "nat \<Rightarrow> char" where
  "digit_char n = ''0123456789'' ! n"

fun str_nat :: "nat \<Rightarrow> string" where
  "str_nat n = (if n < 10 then [digit_char n] else str_nat (n div 10) @ [digit_char (n mod 10)])"

declare str_nat.simps [simp del]

definition str_int :: "int \<Rightarrow> string" where
  "str_int i = (if i < 0 then CHR ''-'' # str_nat (nat (- i)) else str_nat (nat i))"

text \<open>An f-string renders \<open>None\<close>, which \<open>os.getenv\<close> returns for an unset variable, as None.\<close>

definition format_env :: "string option \<Rightarrow> string" where
  "format_env v = (case v of None \<Rightarrow> ''None'' | Some s \<Rightarrow> s)"

subsection \<open>Binary64 arithmetic\<close>

text \<open>
  pandas divides the integer column by 10 in float64. A finite double is a rational;
  \<open>float64 q\<close> is the double nearest to \<open>q\<close>, ties to the even significand, for \<open>q\<close>
  in the range of normal doubles (a 64-bit integer and its tenth always are).
  \<open>binade q\<close> is the exponent \<open>e\<close> with \<open>2 ^ e \<le> \<bar>q\<bar> < 2 ^ (e + 1)\<close>.
\<close>

fun bit_length :: "nat \<Rightarrow> nat" where
  "bit_length n = (if n = 0 then 0 else Suc (bit_length (n div 2)))"

declare bit_length.simps [simp del]

definition pow2 :: "int \<Rightarrow> rat" where
  "pow2 k = (if 0 \<le> k then 2 ^ nat k else 1 / 2 ^ nat (- k))"

definition round_half_even :: "rat \<Rightarrow> int" where
  "round_half_even q =
     (let n = \<lfloor>q\<rfloor>; r = q - of_int n
      in if r < 1 / 2 then n
         else if 1 / 2 < r then n + 1
         else if even n then n else n + 1)"

definition binade :: "rat \<Rightarrow> int" where
  "binade q =
     (let (p, d) = quotient_of \<bar>q\<bar>;
          k = int (bit_length (nat p)) - int (bit_length (nat d))
      in if pow2 k \<le> \<bar>q\<bar> then k else k - 1)"

definition float64 :: "rat \<Rightarrow> rat" where
  "float64 q =
     (if q = 0 then 0
      else let e = binade q - 52
           in of_int (round_half_even (q / pow2 e)) * pow2 e)"

definition int_to_float :: "int \<Rightarrow> rat" where
  "int_to_float i = float64 (of_int i)"

definition truediv :: "rat \<Rightarrow> rat \<Rightarrow> rat" where
  "truediv a b = float64 (a / b)"

text \<open>Line 42: \<open>df['height_mm'] / 10\<close>, both operands converted to float64.\<close>

definition height_cm :: "int \<Rightarrow> rat" where
  "height_cm h = truediv (int_to_float h) (int_to_float 10)"

subsection \<open>\<open>get_db_engine\<close>\<close>

definition db_url :: "'d world \<Rightarrow> string" where
  "db_url w =
     ''postgresql://'' @ format_env (getenv w ''DB_USER'') @ '':''
       @ format_env (getenv w ''DB_PASSWORD'') @ [CHR 0x40]
       @ format_env (getenv w ''DB_HOST'') @ '':''
       @ format_env (getenv w ''DB_PORT'') @ ''/''
       @ format_env (getenv w ''DB_NAME'')"

definition get_db_engine :: "'d world \<Rightarrow> exn + engine" where
  "get_db_engine w =
     (case create_engine w (db_url w) of
        Inr eng \<Rightarrow> Inr eng
      | Inl e \<Rightarrow>
          if is_Exception e
          then Inl (HTTPException 500 (''Database connection failed: '' @ str_exn w e))
          else Inl e)"

subsection \<open>The query\<close>

text \<open>The text of lines 27 to 32, with its line breaks and indentation.\<close>

definition query_text :: string where
  "query_text =
     [CHR 0x0A] @ ''            SELECT log_date, height_mm '' @
     [CHR 0x0A] @ ''            FROM growth_logs '' @
     [CHR 0x0A] @ ''            WHERE lot_id = :lot_id'' @
     [CHR 0x0A] @ ''            ORDER BY log_date'' @
     [CHR 0x0A] @ ''        ''"

text \<open>
  What the database answers to that statement with \<open>:lot_id\<close> bound to \<open>lot\<close>: the rows of
  the lot, ascending by \<open>log_date\<close>, projected to the two selected columns. SQL leaves the
  order of rows with equal dates open; the model keeps them in storage order.
\<close>

definition select_growth_logs :: "int \<Rightarrow> ('d::linorder) growth_log list \<Rightarrow> ('d \<times> int) list" where
  "select_growth_logs lot tbl =
     map (\<lambda>r. (log_date r, height_mm r)) (sort_key log_date (filter (\<lambda>r. lot_id r = lot) tbl))"

text \<open>
  \<open>pd.read_sql_query(query, connection, params)\<close>: the statement and its parameters go to
  the database; the frame holds the rows it returns. A statement whose bind parameter has
  no value is refused by SQLAlchemy.
\<close>

definition read_sql_query ::
  "('d::linorder) world \<Rightarrow> string \<Rightarrow> (string \<times> int) list \<Rightarrow> event list \<times> (exn + ('d \<times> int) list)" where
  "read_sql_query w sql params =
     ([Execute sql params],
      case execute_fault w sql params of
        Some e \<Rightarrow> Inl e
      | None \<Rightarrow>
          (case map_of params ''lot_id'' of
             None \<Rightarrow> Inl (SQLAlchemyError ''A value is required for bind parameter lot_id'')
           | Some v \<Rightarrow> Inr (select_growth_logs v (growth_logs w))))"

text \<open>
  \<open>with engine.connect() as connection: body\<close>. When \<open>connect\<close> raises, the body does not
  run; otherwise the connection is closed when the body is left, by a value or by an
  exception.
\<close>

definition with_connection ::
  "'d world \<Rightarrow> engine \<Rightarrow> event list \<times> (exn + 'a) \<Rightarrow> event list \<times> (exn + 'a)" where
  "with_connection w eng body =
     (case engine_connect w eng of
        Some e \<Rightarrow> ([], Inl e)
      | None \<Rightarrow> ([Acquire eng] @ fst body @ [Release eng], snd body))"

subsection \<open>The figure\<close>

datatype plot_kind = Line | Scatter | Bar

record button =
  button_count :: "int option"
  button_label :: "string option"
  button_step :: string
  button_stepmode :: "string option"

record 'd figure =
  plot :: plot_kind
  data_x :: "'d list"
  data_y :: "rat list"
  x_column :: string
  y_column :: string
  title :: string
  labels :: "(string \<times> string) list"
  markers :: bool
  color_discrete_sequence :: "string list"
  rangeselector_buttons :: "button list"
  rangeslider_visible :: "bool option"
  xaxis_type :: "string option"
  hovermode :: "string option"
  hovertemplate :: "string option"

text \<open>Line 43: \<open>'d\<close> already is the date value, so parsing keeps it (and its order).\<close>

definition pd_to_datetime :: "'d \<Rightarrow> 'd" where
  "pd_to_datetime d = d"

definition df_empty :: "'a list \<Rightarrow> bool" where
  "df_empty df = (df = [])"

text \<open>
  \<open>px.line\<close> on the frame with columns \<open>log_date\<close>, \<open>height_mm\<close>, \<open>height_cm\<close>: the
  figure records the arguments of the call, and the two columns it plots.
\<close>

definition px_line ::
  "('d \<times> int \<times> rat) list \<Rightarrow> string \<Rightarrow> (string \<times> string) list \<Rightarrow> bool \<Rightarrow> string list \<Rightarrow> 'd figure" where
  "px_line df ttl lbls mk colors =
     \<lparr>plot = Line,
      data_x = map fst df,
      data_y = map (\<lambda>r. snd (snd r)) df,
      x_column = ''log_date'',
      y_column = ''height_cm'',
      title = ttl,
      labels = lbls,
      markers = mk,
      color_discrete_sequence = colors,
      rangeselector_buttons = [],
      rangeslider_visible = None,
      xaxis_type = None,
      hovermode = None,
      hovertemplate = None\<rparr>"

definition update_layout :: "'d figure \<Rightarrow> 'd figure" where
  "update_layout fig =
     fig\<lparr>rangeselector_buttons :=
           [\<lparr>button_count = Some 7, button_label = Some ''1w'',
             button_step = ''day'', button_stepmode = Some ''backward''\<rparr>,
            \<lparr>button_count = Some 1, button_label = Some ''1m'',
             button_step = ''month'', button_stepmode = Some ''backward''\<rparr>,
            \<lparr>button_count = None, button_label = None,
             button_step = ''all'', button_stepmode = None\<rparr>],
         rangeslider_visible := Some True,
         xaxis_type := Some ''date'',
         hovermode := Some ''x unified''\<rparr>"

definition update_traces :: "'d figure \<Rightarrow> 'd figure" where
  "update_traces fig =
     fig\<lparr>hovertemplate :=
           Some (''<b>Date:</b> %{x|%Y-%m-%d}<br>'' @
                 ''<b>Height:</b> %{y:.1f} cm<br>'' @
                 ''<extra></extra>'')\<rparr>"

subsection \<open>\<open>get_growth_chart\<close>\<close>

text \<open>
  A response body is literal markup, or what \<open>fig.to_html\<close> makes of a figure with its
  \<open>full_html\<close> and \<open>include_plotlyjs\<close> arguments. A returned string is sent by the route's
  response class, \<open>HTMLResponse\<close>, with status 200.
\<close>

datatype 'd content = Markup string | To_html "'d figure" bool string

datatype 'd response = HTMLResponse "'d content" nat

definition build_chart :: "int \<Rightarrow> ('d \<times> int) list \<Rightarrow> 'd figure" where
  "build_chart lot df =
     (let df1 = map (\<lambda>(d, h). (d, h, height_cm h)) df;
          df2 = map (\<lambda>(d, h, c). (pd_to_datetime d, h, c)) df1;
          fig = px_line df2 (''Tomato Growth - Lot '' @ str_int lot)
                  [(''height_cm'', ''Height (cm)''), (''log_date'', ''Date'')]
                  True [''green'']
      in update_traces (update_layout fig))"

text \<open>The body of the \<open>try\<close> statement, lines 25 to 80.\<close>

definition try_body ::
  "('d::linorder) world \<Rightarrow> int \<Rightarrow> event list \<times> (exn + 'd response)" where
  "try_body w lot =
     (case get_db_engine w of
        Inl e \<Rightarrow> ([], Inl e)
      | Inr eng \<Rightarrow>
          (case with_connection w eng (read_sql_query w query_text [(''lot_id'', lot)]) of
             (evs, Inl e) \<Rightarrow> (evs, Inl e)
           | (evs, Inr df) \<Rightarrow>
               if df_empty df
               then (evs, Inr (HTMLResponse (Markup ''<h2>No data found for this lot ID</h2>'') 404))
               else (evs, Inr (HTMLResponse (To_html (build_chart lot df) False ''cdn'') 200))))"

text \<open>The two handlers, lines 82 to 85, in their order; anything else propagates.\<close>

definition handle_exn :: "'d world \<Rightarrow> exn \<Rightarrow> exn" where
  "handle_exn w e =
     (case e of
        SQLAlchemyError m \<Rightarrow> HTTPException 500 (''Database error: '' @ str_exn w e)
      | BaseException m \<Rightarrow> e
      | _ \<Rightarrow> HTTPException 500 (str_exn w e))"

definition get_growth_chart ::
  "('d::linorder) world \<Rightarrow> int \<Rightarrow> event list \<times> (exn + 'd response)" where
  "get_growth_chart w lot =
     (case try_body w lot of
        (evs, Inl e) \<Rightarrow> (evs, Inl (handle_exn w e))
      | (evs, Inr r) \<Rightarrow> (evs, Inr r))"

text \<open>The connections an event sequence leaves open.\<close>

fun open_connections :: "event list \<Rightarrow> engine list \<Rightarrow> engine list" where
  "open_connections [] held = held"
| "open_connections (Acquire c # evs) held = open_connections evs (c # held)"
| "open_connections (Release c # evs) held = open_connections evs (remove1 c held)"
| "open_connections (Execute sql ps # evs) held = open_connections evs held"

text \<open>The statements an event sequence sent to the database.\<close>

fun statements :: "event list \<Rightarrow> (string \<times> (string \<times> int) list) list" where
  "statements [] = []"
| "statements (Execute sql ps # evs) = (sql, ps) # statements evs"
| "statements (ev # evs) = statements evs"

subsection \<open>Example worlds\<close>

text \<open>
  A configured, reachable database holding two lots, with the rows of lot 7 stored out of
  date order.
\<close>

definition example_world :: "(nat \<times> nat \<times> nat) world" where
  "example_world =
     \<lparr>getenv =
        map_of [(''DB_USER'', ''grower''), (''DB_PASSWORD'', ''secret''), (''DB_HOST'', ''db''),
                (''DB_PORT'', ''5432''), (''DB_NAME'', ''plants'')],
      create_engine = (\<lambda>url. Inr (Engine url)),
      engine_connect = (\<lambda>eng. None),
      execute_fault = (\<lambda>sql ps. None),
      growth_logs =
        [\<lparr>lot_id = 7, log_date = (2024, 1, 8), height_mm = 150\<rparr>,
         \<lparr>lot_id = 3, log_date = (2024, 1, 2), height_mm = 305\<rparr>,
         \<lparr>lot_id = 7, log_date = (2024, 1, 1), height_mm = 100\<rparr>],
      http_exception_str = (\<lambda>sc d. str_int (int sc) @ '': '' @ d)\<rparr>"

definition example_engine :: engine where
  "example_engine = Engine ''postgresql://grower:secret@db:5432/plants''"

text \<open>The same database, while a statement times out.\<close>

definition query_fails_world :: "(nat \<times> nat \<times> nat) world" where
  "query_fails_world =
     example_world\<lparr>execute_fault :=
       (\<lambda>sql ps. Some (SQLAlchemyError ''canceling statement due to statement timeout''))\<rparr>"


text \<open>The same configuration, while the database server cannot be reached.\<close>

definition db_down_world :: "(nat \<times> nat \<times> nat) world" where
  "db_down_world =
     example_world\<lparr>engine_connect :=
       (\<lambda>eng. Some (SQLAlchemyError ''could not translate host name to address''))\<rparr>"

section \<open>Properties\<close>

subsection \<open>Shared facts\<close>

lemma int_to_float_10: "int_to_float 10 = 10"
  by code_simp

subsection \<open>Binary64 rounding\<close>

text \<open>
  \<open>binade\<close> brackets its argument between two powers of two, so \<open>float64\<close> is off by at
  most half a unit in the last place: a relative error of at most \<open>2 ^ -53\<close>. Integers
  below \<open>2 ^ 53\<close> in magnitude are doubles.
\<close>

lemma pow2_powi: "pow2 k = 2 powi k"
  by (simp add: pow2_def power_int_def field_simps)

lemma pow2_pos: "0 < pow2 k"
  by (simp add: pow2_powi)

lemma round_half_even_error: "\<bar>of_int (round_half_even x) - x\<bar> \<le> 1 / 2"
proof -
  have "of_int \<lfloor>x\<rfloor> \<le> x" "x < of_int \<lfloor>x\<rfloor> + 1"
    by linarith+
  then show ?thesis
    by (auto simp: round_half_even_def Let_def abs_le_iff)
qed

lemma float64_error: "\<bar>float64 q - q\<bar> \<le> pow2 (binade q - 52) / 2"
proof (cases "q = 0")
  case True
  then show ?thesis using pow2_pos [of "binade 0 - 52"] by (simp add: float64_def)
next
  case False
  define e where "e = binade q - 52"
  define m where "m = round_half_even (q / pow2 e)"
  have p: "0 < pow2 e" by (rule pow2_pos)
  have "\<bar>of_int m - q / pow2 e\<bar> \<le> 1 / 2"
    unfolding m_def by (rule round_half_even_error)
  then have "\<bar>of_int m - q / pow2 e\<bar> * pow2 e \<le> 1 / 2 * pow2 e"
    using p by (intro mult_right_mono) simp_all
  moreover have "\<bar>of_int m - q / pow2 e\<bar> * pow2 e = \<bar>of_int m * pow2 e - q\<bar>"
  proof -
    have "\<bar>of_int m - q / pow2 e\<bar> * pow2 e = \<bar>(of_int m - q / pow2 e) * pow2 e\<bar>"
      using p by (simp add: abs_mult)
    also have "(of_int m - q / pow2 e) * pow2 e = of_int m * pow2 e - q"
      using p by (simp add: field_simps)
    finally show ?thesis .
  qed
  ultimately show ?thesis
    using False by (simp add: float64_def Let_def e_def m_def)
qed

lemma bit_length_upper: "n < 2 ^ bit_length n"
proof (induction n rule: bit_length.induct)
  case (1 n)
  show ?case
  proof (cases "n = 0")
    case True
    then show ?thesis by (simp add: bit_length.simps)
  next
    case False
    then have "n div 2 < 2 ^ bit_length (n div 2)" using 1 by simp
    then have "n < 2 * 2 ^ bit_length (n div 2)" by linarith
    then show ?thesis using False by (subst bit_length.simps) simp
  qed
qed

lemma bit_length_lower: "0 < n \<Longrightarrow> 2 ^ bit_length n \<le> 2 * n"
proof (induction n rule: bit_length.induct)
  case (1 n)
  show ?case
  proof (cases "n div 2 = 0")
    case True
    then have "n = 1" using 1(2) by presburger
    then show ?thesis by (simp add: bit_length.simps)
  next
    case False
    then have "2 ^ bit_length (n div 2) \<le> 2 * (n div 2)" using 1 by simp
    then have "2 * 2 ^ bit_length (n div 2) \<le> 2 * n" by linarith
    then show ?thesis using 1(2) by (subst bit_length.simps) simp
  qed
qed

lemma pow2_add: "pow2 (a + b) = pow2 a * pow2 b"
  by (simp add: pow2_powi power_int_add)

lemma pow2_of_nat: "pow2 (int n) = 2 ^ n"
  by (simp add: pow2_def)

lemma pow2_diff: "pow2 (a - b) = pow2 a / pow2 b"
  by (simp add: pow2_powi power_int_diff)

lemma pow2_numerals: "pow2 1 = 2" "pow2 52 = 2 ^ 52" "pow2 53 = 2 ^ 53"
  by (simp_all add: pow2_def)

lemma binade_bounds:
  assumes "q \<noteq> 0"
  shows "pow2 (binade q) \<le> \<bar>q\<bar> \<and> \<bar>q\<bar> < pow2 (binade q + 1)"
proof -
  obtain p d where pd: "quotient_of \<bar>q\<bar> = (p, d)"
    by (cases "quotient_of \<bar>q\<bar>")
  have d: "0 < d" using pd by (rule quotient_of_denom_pos)
  have q: "\<bar>q\<bar> = of_int p / of_int d" using pd by (rule quotient_of_div)
  have "0 < \<bar>q\<bar>" using assms by simp
  then have p: "0 < p" using d q by (simp add: zero_less_divide_iff)
  define bp where "bp = bit_length (nat p)"
  define bd where "bd = bit_length (nat d)"
  define k where "k = int bp - int bd"
  have "nat p < 2 ^ bp" "2 ^ bp \<le> 2 * nat p" "nat d < 2 ^ bd" "2 ^ bd \<le> 2 * nat d"
    using p d by (simp_all add: bp_def bd_def bit_length_upper bit_length_lower)
  then have "int (nat p) < int (2 ^ bp)" "int (2 ^ bp) \<le> int (2 * nat p)"
    "int (nat d) < int (2 ^ bd)" "int (2 ^ bd) \<le> int (2 * nat d)"
    by (simp_all only: of_nat_less_iff of_nat_le_iff)
  then have ip: "p < 2 ^ bp" "2 ^ bp \<le> 2 * p" and id: "d < 2 ^ bd" "2 ^ bd \<le> 2 * d"
    using p d by simp_all
  have rp: "(of_int p :: rat) < 2 ^ bp" "(2 :: rat) ^ bp \<le> 2 * of_int p"
    using ip by (metis of_int_less_iff of_int_numeral of_int_power,
        metis of_int_le_iff of_int_mult of_int_numeral of_int_power)
  have rd: "(of_int d :: rat) < 2 ^ bd" "(2 :: rat) ^ bd \<le> 2 * of_int d"
    using id by (metis of_int_less_iff of_int_numeral of_int_power,
        metis of_int_le_iff of_int_mult of_int_numeral of_int_power)
  have dpos: "(0 :: rat) < of_int d" using d by simp
  have ppos: "(0 :: rat) < of_int p" using p by simp
  have pk: "pow2 k = 2 ^ bp / 2 ^ bd"
    by (simp add: k_def pow2_diff pow2_of_nat)
  have upper: "\<bar>q\<bar> < pow2 (k + 1)"
  proof -
    have "of_int p * (2 :: rat) ^ bd < 2 ^ bp * (2 * of_int d)"
      using rp(1) rd(2) dpos ppos by (intro mult_less_le_imp_less) simp_all
    then have "of_int p / of_int d < (2 ^ bp / 2 ^ bd) * (2 :: rat)"
      using dpos by (simp add: field_simps)
    then show ?thesis by (simp add: q pow2_add pk pow2_numerals)
  qed
  have lower: "pow2 (k - 1) \<le> \<bar>q\<bar>"
  proof -
    have "(2 :: rat) ^ bp * of_int d \<le> (2 * of_int p) * 2 ^ bd"
      using rp(2) rd(1) dpos ppos by (intro mult_mono) simp_all
    then have "(2 ^ bp / 2 ^ bd) / (2 :: rat) \<le> of_int p / of_int d"
      using dpos by (simp add: field_simps)
    then show ?thesis by (simp add: q pow2_diff pk pow2_numerals)
  qed
  have b: "binade q = (if pow2 k \<le> \<bar>q\<bar> then k else k - 1)"
    by (simp add: binade_def pd Let_def k_def bp_def bd_def)
  show ?thesis
  proof (cases "pow2 k \<le> \<bar>q\<bar>")
    case True
    then show ?thesis using upper b by simp
  next
    case False
    then show ?thesis using lower b by simp
  qed
qed

lemma float64_relative_error:
  "\<bar>float64 q - q\<bar> \<le> \<bar>q\<bar> / 2 ^ 53"
proof (cases "q = 0")
  case True
  then show ?thesis by (simp add: float64_def)
next
  case False
  have "\<bar>float64 q - q\<bar> \<le> pow2 (binade q - 52) / 2"
    by (rule float64_error)
  also have "\<dots> = pow2 (binade q) / 2 ^ 53"
    by (simp add: pow2_diff pow2_numerals)
  also have "\<dots> \<le> \<bar>q\<bar> / 2 ^ 53"
    using binade_bounds [OF False] by (simp add: divide_right_mono)
  finally show ?thesis .
qed

lemma pow2_mono: "a \<le> b \<Longrightarrow> pow2 a \<le> pow2 b"
  by (simp add: pow2_powi power_int_increasing)

lemma round_half_even_of_int: "round_half_even (of_int n) = n"
  by (simp add: round_half_even_def)

lemma float64_of_int:
  assumes "\<bar>i\<bar> < 2 ^ 53"
  shows "float64 (of_int i) = of_int i"
proof (cases "i = 0")
  case True
  then show ?thesis by (simp add: float64_def)
next
  case False
  define q :: rat where "q = of_int i"
  have q0: "q \<noteq> 0" using False by (simp add: q_def)
  have "\<bar>q\<bar> = of_int \<bar>i\<bar>" by (simp add: q_def)
  also have "\<dots> < of_int (2 ^ 53)" using assms by (simp only: of_int_less_iff)
  finally have "\<bar>q\<bar> < pow2 53" by (simp add: pow2_numerals)
  then have "pow2 (binade q) < pow2 53"
    using binade_bounds [OF q0] by simp
  then have "\<not> 53 \<le> binade q"
    using pow2_mono [of 53 "binade q"] by auto
  then have e: "binade q - 52 \<le> 0" by simp
  define n where "n = nat (52 - binade q)"
  have pe: "pow2 (binade q - 52) = 1 / 2 ^ n"
  proof -
    have "pow2 (binade q - 52) = pow2 (- int n)" using e by (simp add: n_def)
    also have "\<dots> = 1 / 2 ^ n" by (simp add: pow2_def)
    finally show ?thesis .
  qed
  have "q / pow2 (binade q - 52) = q * 2 ^ n"
    by (simp only: pe) simp
  also have "\<dots> = of_int (i * 2 ^ n)"
    by (simp add: q_def)
  finally have "round_half_even (q / pow2 (binade q - 52)) = i * 2 ^ n"
    by (simp only: round_half_even_of_int)
  then have "float64 q = of_int (i * 2 ^ n) * (1 / 2 ^ n)"
    using q0 by (simp only: float64_def Let_def pe if_False)
  then show ?thesis by (simp add: q_def)
qed

lemma height_cm_accuracy:
  assumes "\<bar>h\<bar> < 2 ^ 53"
  shows "\<bar>height_cm h - of_int h / 10\<bar> \<le> \<bar>of_int h / 10\<bar> / 2 ^ 53"
proof -
  have "int_to_float h = of_int h"
    using assms by (simp add: int_to_float_def float64_of_int)
  then have "height_cm h = float64 (of_int h / 10)"
    by (simp add: height_cm_def truediv_def int_to_float_10)
  then show ?thesis
    using float64_relative_error [of "of_int h / 10"] by simp
qed

subsection \<open>The request, step by step\<close>

lemma fst_get_growth_chart:
  "fst (get_growth_chart w lot) =
     (case get_db_engine w of
        Inl e \<Rightarrow> []
      | Inr eng \<Rightarrow>
          (case engine_connect w eng of
             Some e \<Rightarrow> []
           | None \<Rightarrow> [Acquire eng, Execute query_text [(''lot_id'', lot)], Release eng]))"
  by (simp add: get_growth_chart_def try_body_def with_connection_def read_sql_query_def
      split: sum.splits option.splits prod.splits)

lemma get_growth_chart_connected:
  assumes "get_db_engine w = Inr eng" and "engine_connect w eng = None"
    and "execute_fault w query_text [(''lot_id'', lot)] = None"
  shows "snd (get_growth_chart w lot) =
     Inr (if select_growth_logs lot (growth_logs w) = []
          then HTMLResponse (Markup ''<h2>No data found for this lot ID</h2>'') 404
          else HTMLResponse
                 (To_html (build_chart lot (select_growth_logs lot (growth_logs w))) False ''cdn'') 200)"
  using assms
  by (simp add: get_growth_chart_def try_body_def with_connection_def read_sql_query_def
      df_empty_def)

lemma get_growth_chart_InrD:
  assumes "snd (get_growth_chart w lot) = Inr r"
  shows "\<exists>eng. get_db_engine w = Inr eng \<and> engine_connect w eng = None
           \<and> execute_fault w query_text [(''lot_id'', lot)] = None"
  using assms
  by (auto simp: get_growth_chart_def try_body_def with_connection_def read_sql_query_def
      split: sum.splits option.splits prod.splits if_splits)

lemma sort_key_Nil_iff: "sort_key f xs = [] \<longleftrightarrow> xs = []"
  by (metis length_0_conv length_sort)

lemma select_growth_logs_empty:
  "select_growth_logs lot tbl = [] \<longleftrightarrow> (\<forall>r \<in> set tbl. lot_id r \<noteq> lot)"
  by (simp add: select_growth_logs_def sort_key_Nil_iff filter_empty_conv)

lemma data_x_build_chart: "data_x (build_chart lot df) = map fst df"
  by (simp add: build_chart_def px_line_def update_layout_def update_traces_def
      pd_to_datetime_def Let_def comp_def case_prod_beta)

lemma data_y_build_chart:
  "data_y (build_chart lot df) = map (\<lambda>r. truediv (int_to_float (snd r)) 10) df"
  by (simp add: build_chart_def px_line_def update_layout_def update_traces_def
      pd_to_datetime_def Let_def comp_def case_prod_beta height_cm_def int_to_float_10)

lemma example_world_engine: "get_db_engine example_world = Inr example_engine"
  by (simp add: get_db_engine_def example_world_def example_engine_def db_url_def format_env_def)

lemma example_world_connect: "engine_connect example_world eng = None"
  by (simp add: example_world_def)

lemma example_world_execute: "execute_fault example_world sql ps = None"
  by (simp add: example_world_def)

subsection \<open>The chart of a lot that has rows\<close>

text \<open>
  Claim C1. When the engine is built, the connection is established, the statement runs and
  the table holds at least one row of the lot, the response is the chart of a figure whose
  points are the stored rows of the lot, one point per row, in ascending date order: the x
  values are the rows' dates and the y values are the rows' \<open>height_mm\<close> divided by 10
  in float64.
\<close>

theorem growth_chart_heights:
  fixes w :: "('d::linorder) world"
  assumes "get_db_engine w = Inr eng"
    and "engine_connect w eng = None"
    and "execute_fault w query_text [(''lot_id'', lot)] = None"
    and "\<exists>r \<in> set (growth_logs w). lot_id r = lot"
  shows "\<exists>fig rows.
      snd (get_growth_chart w lot) = Inr (HTMLResponse (To_html fig False ''cdn'') 200)
    \<and> mset rows = filter_mset (\<lambda>r. lot_id r = lot) (mset (growth_logs w))
    \<and> sorted (map log_date rows)
    \<and> data_x fig = map log_date rows
    \<and> data_y fig = map (\<lambda>r. truediv (int_to_float (height_mm r)) 10) rows"
proof -
  define rows where "rows = sort_key log_date (filter (\<lambda>r. lot_id r = lot) (growth_logs w))"
  define df where "df = select_growth_logs lot (growth_logs w)"
  have df: "df = map (\<lambda>r. (log_date r, height_mm r)) rows"
    by (simp add: df_def rows_def select_growth_logs_def)
  have "df \<noteq> []"
    using assms(4) by (auto simp: df_def select_growth_logs_empty)
  then have "snd (get_growth_chart w lot) = Inr (HTMLResponse (To_html (build_chart lot df) False ''cdn'') 200)"
    using get_growth_chart_connected [OF assms(1-3)] by (simp add: df_def)
  moreover have "mset rows = filter_mset (\<lambda>r. lot_id r = lot) (mset (growth_logs w))"
    by (simp add: rows_def)
  moreover have "sorted (map log_date rows)"
    by (simp add: rows_def)
  moreover have "data_x (build_chart lot df) = map log_date rows"
    by (simp add: data_x_build_chart df comp_def)
  moreover have "data_y (build_chart lot df) = map (\<lambda>r. truediv (int_to_float (height_mm r)) 10) rows"
    by (simp add: data_y_build_chart df comp_def)
  ultimately show ?thesis by blast
qed

lemma example_world_lot7: "\<exists>r \<in> set (growth_logs example_world). lot_id r = 7"
  by (simp add: example_world_def)

theorem growth_chart_heights_witness:
  "get_db_engine example_world = Inr example_engine
   \<and> engine_connect example_world example_engine = None
   \<and> execute_fault example_world query_text [(''lot_id'', 7)] = None
   \<and> (\<exists>r \<in> set (growth_logs example_world). lot_id r = 7)
   \<and> (\<exists>fig rows.
      snd (get_growth_chart example_world 7) = Inr (HTMLResponse (To_html fig False ''cdn'') 200)
    \<and> mset rows = filter_mset (\<lambda>r. lot_id r = 7) (mset (growth_logs example_world))
    \<and> sorted (map log_date rows)
    \<and> data_x fig = map log_date rows
    \<and> data_y fig = map (\<lambda>r. truediv (int_to_float (height_mm r)) 10) rows)"
  using growth_chart_heights [OF example_world_engine example_world_connect
      example_world_execute example_world_lot7]
    example_world_engine example_world_connect example_world_execute example_world_lot7
  by simp

text \<open>The end-to-end example: lot 7 yields the points (2024-01-01, 10.0), (2024-01-08, 15.0).\<close>

lemma select_example_lot7:
  "select_growth_logs 7 (growth_logs example_world) = [((2024, 1, 1), 100), ((2024, 1, 8), 150)]"
  by (simp add: select_growth_logs_def example_world_def)

lemma height_cm_100: "truediv (int_to_float 100) 10 = 10"
  by code_simp

lemma height_cm_150: "truediv (int_to_float 150) 10 = 15"
  by code_simp

lemma growth_chart_example:
  "\<exists>fig. snd (get_growth_chart example_world 7) = Inr (HTMLResponse (To_html fig False ''cdn'') 200)
     \<and> zip (data_x fig) (data_y fig) = [((2024, 1, 1), 10), ((2024, 1, 8), 15)]"
  using get_growth_chart_connected [OF example_world_engine example_world_connect example_world_execute, of 7]
  by (simp add: select_example_lot7 data_x_build_chart data_y_build_chart height_cm_100 height_cm_150)

subsection \<open>A lot without rows\<close>

text \<open>
  Claim C2. When the engine is built, the connection is established, the statement runs and
  its result set is empty, the response has status 404 and the markup of a "no data"
  message as its body; it is not a chart.
\<close>

theorem no_data_not_found:
  fixes w :: "('d::linorder) world"
  assumes "get_db_engine w = Inr eng"
    and "engine_connect w eng = None"
    and "execute_fault w query_text [(''lot_id'', lot)] = None"
    and "select_growth_logs lot (growth_logs w) = []"
  shows "snd (get_growth_chart w lot) =
           Inr (HTMLResponse (Markup ''<h2>No data found for this lot ID</h2>'') 404)
       \<and> (\<forall>fig fh js sc. snd (get_growth_chart w lot) \<noteq> Inr (HTMLResponse (To_html fig fh js) sc))"
  using get_growth_chart_connected [OF assms(1-3)] assms(4) by simp

lemma select_example_lot8: "select_growth_logs 8 (growth_logs example_world) = []"
  by (simp add: select_growth_logs_def example_world_def)

theorem no_data_not_found_witness:
  "get_db_engine example_world = Inr example_engine
   \<and> engine_connect example_world example_engine = None
   \<and> execute_fault example_world query_text [(''lot_id'', 8)] = None
   \<and> select_growth_logs 8 (growth_logs example_world) = []
   \<and> snd (get_growth_chart example_world 8) =
           Inr (HTMLResponse (Markup ''<h2>No data found for this lot ID</h2>'') 404)"
  using no_data_not_found [OF example_world_engine example_world_connect
      example_world_execute select_example_lot8]
    example_world_engine example_world_connect example_world_execute select_example_lot8
  by simp

subsection \<open>Failures\<close>

lemma query_fails_world_engine: "get_db_engine query_fails_world = Inr example_engine"
  by (simp add: get_db_engine_def query_fails_world_def example_world_def example_engine_def
      db_url_def format_env_def)

lemma query_fails_world_connect: "engine_connect query_fails_world eng = None"
  by (simp add: query_fails_world_def example_world_def)

lemma query_fails_world_execute:
  "execute_fault query_fails_world sql ps =
     Some (SQLAlchemyError ''canceling statement due to statement timeout'')"
  by (simp add: query_fails_world_def)




lemma db_down_world_engine: "get_db_engine db_down_world = Inr example_engine"
  by (simp add: get_db_engine_def db_down_world_def example_world_def example_engine_def
      db_url_def format_env_def)

lemma get_growth_chart_connect_raises:
  assumes "get_db_engine w = Inr eng" and "engine_connect w eng = Some e"
  shows "get_growth_chart w lot = ([], Inl (handle_exn w e))"
  using assms by (simp add: get_growth_chart_def try_body_def with_connection_def)

lemma get_growth_chart_execute_raises:
  assumes "get_db_engine w = Inr eng" and "engine_connect w eng = None"
    and "execute_fault w query_text [(''lot_id'', lot)] = Some e"
  shows "snd (get_growth_chart w lot) = Inl (handle_exn w e)"
  using assms
  by (simp add: get_growth_chart_def try_body_def with_connection_def read_sql_query_def)

lemma get_growth_chart_engine_raises:
  assumes "create_engine w (db_url w) = Inl e" and "is_Exception e"
  shows "get_growth_chart w lot =
     ([], Inl (HTTPException 500
        (http_exception_str w 500 (''Database connection failed: '' @ str_exn w e))))"
  using assms by (simp add: get_growth_chart_def try_body_def get_db_engine_def handle_exn_def)

text \<open>
  Claim C3. The message of a failure to establish the database session should identify a
  database-connection failure. The connection is established by \<open>engine.connect()\<close> inside
  the \<open>with\<close> statement, not by \<open>get_db_engine\<close>; when it raises SQLAlchemy's
  error for an unreachable server, the first handler answers with status 500 and the
  label of a database error, the label a failed statement gets.
\<close>

theorem connect_failure_reported_as_database_error:
  "get_growth_chart db_down_world 7 =
     ([], Inl (HTTPException 500 ''Database error: could not translate host name to address''))"
  using get_growth_chart_connect_raises [OF db_down_world_engine, of _ 7]
  by (simp add: db_down_world_def handle_exn_def)




subsection \<open>Millimetres to centimetres\<close>

text \<open>
  Claim C6. A stored \<open>height_mm\<close> of 305 gives a \<open>height_cm\<close> of exactly 30.5: the
  float64 quotient is the rational 305 / 10 = 61 / 2, without a rounding error.
\<close>

theorem height_cm_305: "height_cm 305 = 305 / 10 \<and> height_cm 305 = 61 / 2"
  by code_simp

text \<open>A tenth that is not a double is rounded: 0.1 is 3602879701896397 / 2 ^ 55.\<close>

lemma height_cm_1: "height_cm 1 = 3602879701896397 / 36028797018963968"
  by code_simp

subsection \<open>The statement sent to the database\<close>

text \<open>
  Claim C7. The statements a request sends to the database are: none when no connection is
  established, and otherwise the one fixed text \<open>query_text\<close> with the lot identifier as
  the value of the bound parameter \<open>lot_id\<close>. The texts sent for two lot identifiers are
  the same.
\<close>

theorem query_is_parameterized:
  "statements (fst (get_growth_chart w lot)) =
     (if \<exists>eng. get_db_engine w = Inr eng \<and> engine_connect w eng = None
      then [(query_text, [(''lot_id'', lot)])] else [])
   \<and> map fst (statements (fst (get_growth_chart w lot))) =
       map fst (statements (fst (get_growth_chart w lot')))"
  by (auto simp: fst_get_growth_chart split: sum.splits option.splits)

theorem query_is_parameterized_witness:
  "statements (fst (get_growth_chart example_world 7)) = [(query_text, [(''lot_id'', 7)])]
   \<and> statements (fst (get_growth_chart example_world 3)) = [(query_text, [(''lot_id'', 3)])]"
  using query_is_parameterized [of example_world 7 3] query_is_parameterized [of example_world 3 7]
    example_world_engine example_world_connect
  by simp

subsection \<open>The connection\<close>

text \<open>
  Claim C8. When the engine is built and the connection is established, the request's
  events are: acquire the connection, execute the statement, release the connection,
  whatever the statement does (rows, no rows, or an exception of any class); no connection
  is left open.
\<close>

theorem connection_released:
  fixes w :: "('d::linorder) world"
  assumes "get_db_engine w = Inr eng" and "engine_connect w eng = None"
  shows "fst (get_growth_chart w lot) =
           [Acquire eng, Execute query_text [(''lot_id'', lot)], Release eng]
       \<and> open_connections (fst (get_growth_chart w lot)) [] = []"
  using assms by (simp add: fst_get_growth_chart)

lemma no_connection_without_acquire:
  "open_connections (fst (get_growth_chart w lot)) [] = []"
  by (simp add: fst_get_growth_chart split: sum.splits option.splits)

theorem connection_released_witness:
  "get_db_engine query_fails_world = Inr example_engine
   \<and> engine_connect query_fails_world example_engine = None
   \<and> get_growth_chart query_fails_world 7 =
       ([Acquire example_engine, Execute query_text [(''lot_id'', 7)], Release example_engine],
        Inl (HTTPException 500 ''Database error: canceling statement due to statement timeout''))
   \<and> open_connections (fst (get_growth_chart query_fails_world 7)) [] = []"
proof -
  note e = query_fails_world_engine and c = query_fails_world_connect [of example_engine]
  have "snd (get_growth_chart query_fails_world 7) =
      Inl (HTTPException 500 ''Database error: canceling statement due to statement timeout'')"
    using get_growth_chart_execute_raises [OF e c query_fails_world_execute]
    by (simp add: handle_exn_def)
  then show ?thesis
    using connection_released [OF e c, of 7] e c by (simp add: prod_eq_iff)
qed

subsection \<open>Date order\<close>

lemma get_db_engine_growth_logs [simp]:
  "get_db_engine (w\<lparr>growth_logs := tbl\<rparr>) = get_db_engine w"
proof -
  have "str_exn (w\<lparr>growth_logs := tbl\<rparr>) e = str_exn w e" for e
    by (cases e) simp_all
  then show ?thesis
    by (simp add: get_db_engine_def db_url_def split: sum.splits)
qed

lemma map_key_sort_key: "map f (sort_key f xs) = sort (map f xs)"
  by (rule sym, rule properties_for_sort) simp_all

lemma dates_select_growth_logs:
  "map fst (select_growth_logs lot tbl) = sort (map log_date (filter (\<lambda>r. lot_id r = lot) tbl))"
  by (simp add: select_growth_logs_def comp_def map_key_sort_key)

lemma dates_select_growth_logs_mset:
  assumes "mset tbl' = mset tbl"
  shows "map fst (select_growth_logs lot tbl') = map fst (select_growth_logs lot tbl)"
proof -
  let ?P = "\<lambda>r. lot_id r = lot"
  have "mset (filter ?P tbl') = mset (filter ?P tbl)"
    using assms by (simp only: mset_filter)
  then have "mset (map log_date (filter ?P tbl')) = mset (map log_date (filter ?P tbl))"
    by (metis mset_map)
  then have "sort (map log_date (filter ?P tbl')) = sort (map log_date (filter ?P tbl))"
    by (intro properties_for_sort) simp_all
  then show ?thesis
    by (simp only: dates_select_growth_logs)
qed

lemma select_growth_logs_Nil_mset:
  assumes "mset tbl' = mset tbl"
  shows "select_growth_logs lot tbl' = [] \<longleftrightarrow> select_growth_logs lot tbl = []"
proof -
  have "set tbl' = set tbl"
    using assms by (rule mset_eq_setD)
  then show ?thesis
    by (simp add: select_growth_logs_empty)
qed

text \<open>
  Claim C5. The dates of a rendered figure are in ascending order, and they are the same
  for any other storage order of the same rows (a table with the same multiset of rows):
  the request on the reordered table renders a figure with the same dates.
\<close>

theorem series_sorted_by_date:
  fixes w :: "('d::linorder) world"
  assumes "snd (get_growth_chart w lot) = Inr (HTMLResponse (To_html fig fh js) sc)"
    and "mset tbl = mset (growth_logs w)"
  shows "sorted (data_x fig)
       \<and> (\<exists>fig'. snd (get_growth_chart (w\<lparr>growth_logs := tbl\<rparr>) lot) =
                   Inr (HTMLResponse (To_html fig' fh js) sc)
                 \<and> data_x fig' = data_x fig)"
proof -
  obtain eng where eng: "get_db_engine w = Inr eng" and conn: "engine_connect w eng = None"
    and run: "execute_fault w query_text [(''lot_id'', lot)] = None"
    using get_growth_chart_InrD [OF assms(1)] by blast
  let ?df = "select_growth_logs lot (growth_logs w)"
  let ?df' = "select_growth_logs lot tbl"
  have res: "?df \<noteq> [] \<and> fig = build_chart lot ?df \<and> fh = False \<and> js = ''cdn'' \<and> sc = 200"
    using get_growth_chart_connected [OF eng conn run] assms(1)
    by (simp split: if_splits)
  have "sorted (data_x fig)"
    using res by (simp add: data_x_build_chart dates_select_growth_logs)
  moreover have "?df' \<noteq> []"
    using res select_growth_logs_Nil_mset [OF assms(2)] by simp
  then have "snd (get_growth_chart (w\<lparr>growth_logs := tbl\<rparr>) lot) =
      Inr (HTMLResponse (To_html (build_chart lot ?df') fh js) sc)"
    using get_growth_chart_connected [of "w\<lparr>growth_logs := tbl\<rparr>" eng lot] eng conn run res
    by simp
  moreover have "data_x (build_chart lot ?df') = data_x fig"
    using res dates_select_growth_logs_mset [OF assms(2)] by (simp add: data_x_build_chart)
  ultimately show ?thesis by blast
qed

lemma chart_example_world_lot7:
  "snd (get_growth_chart example_world 7) =
     Inr (HTMLResponse
       (To_html (build_chart 7 [((2024, 1, 1), 100), ((2024, 1, 8), 150)]) False ''cdn'') 200)"
  using get_growth_chart_connected [OF example_world_engine example_world_connect example_world_execute, of 7]
  by (simp add: select_example_lot7)

lemma reversed_table_mset: "mset (rev (growth_logs example_world)) = mset (growth_logs example_world)"
  by simp

theorem series_sorted_by_date_witness:
  "snd (get_growth_chart example_world 7) =
     Inr (HTMLResponse
       (To_html (build_chart 7 [((2024, 1, 1), 100), ((2024, 1, 8), 150)]) False ''cdn'') 200)
   \<and> mset (rev (growth_logs example_world)) = mset (growth_logs example_world)
   \<and> data_x (build_chart 7 [((2024 :: nat, 1 :: nat, 1 :: nat), 100), ((2024, 1, 8), 150)]) =
       [(2024, 1, 1), (2024, 1, 8)]
   \<and> sorted [(2024 :: nat, 1 :: nat, 1 :: nat), (2024, 1, 8)]
   \<and> (\<exists>fig'. snd (get_growth_chart (example_world\<lparr>growth_logs := rev (growth_logs example_world)\<rparr>) 7) =
                   Inr (HTMLResponse (To_html fig' False ''cdn'') 200)
                 \<and> data_x fig' = [(2024, 1, 1), (2024, 1, 8)])"
  using series_sorted_by_date [OF chart_example_world_lot7 reversed_table_mset]
    chart_example_world_lot7
  by (simp add: data_x_build_chart)

subsection \<open>The layout of the chart\<close>

text \<open>
  Claim C9. For a non-empty result the response is a line figure with markers, titled with
  the lot identifier, its y column labelled \<open>Height (cm)\<close> and its x column
  \<open>Date\<close>, with range selector buttons for the last 7 days, the last month and all
  data, a visible range slider, unified hover, and a hover template that shows the date as
  year-month-day and the height with one decimal, with an empty extra box.
\<close>

theorem chart_layout:
  fixes w :: "('d::linorder) world"
  assumes "get_db_engine w = Inr eng"
    and "engine_connect w eng = None"
    and "execute_fault w query_text [(''lot_id'', lot)] = None"
    and "select_growth_logs lot (growth_logs w) \<noteq> []"
  shows "\<exists>fig. snd (get_growth_chart w lot) = Inr (HTMLResponse (To_html fig False ''cdn'') 200)
    \<and> plot fig = Line
    \<and> markers fig
    \<and> title fig = ''Tomato Growth - Lot '' @ str_int lot
    \<and> x_column fig = ''log_date'' \<and> map_of (labels fig) (x_column fig) = Some ''Date''
    \<and> y_column fig = ''height_cm'' \<and> map_of (labels fig) (y_column fig) = Some ''Height (cm)''
    \<and> rangeselector_buttons fig =
        [\<lparr>button_count = Some 7, button_label = Some ''1w'',
          button_step = ''day'', button_stepmode = Some ''backward''\<rparr>,
         \<lparr>button_count = Some 1, button_label = Some ''1m'',
          button_step = ''month'', button_stepmode = Some ''backward''\<rparr>,
         \<lparr>button_count = None, button_label = None,
          button_step = ''all'', button_stepmode = None\<rparr>]
    \<and> rangeslider_visible fig = Some True
    \<and> xaxis_type fig = Some ''date''
    \<and> hovermode fig = Some ''x unified''
    \<and> hovertemplate fig =
        Some ''<b>Date:</b> %{x|%Y-%m-%d}<br><b>Height:</b> %{y:.1f} cm<br><extra></extra>''"
proof -
  let ?fig = "build_chart lot (select_growth_logs lot (growth_logs w))"
  have "snd (get_growth_chart w lot) = Inr (HTMLResponse (To_html ?fig False ''cdn'') 200)"
    using get_growth_chart_connected [OF assms(1-3)] assms(4) by simp
  then show ?thesis
    by (simp add: build_chart_def px_line_def update_layout_def update_traces_def Let_def)
qed

lemma select_example_lot7_nonempty: "select_growth_logs 7 (growth_logs example_world) \<noteq> []"
  by (simp add: select_example_lot7)

lemma str_int_7: "str_int 7 = ''7''"
  by code_simp

theorem chart_layout_witness:
  "get_db_engine example_world = Inr example_engine
   \<and> engine_connect example_world example_engine = None
   \<and> execute_fault example_world query_text [(''lot_id'', 7)] = None
   \<and> select_growth_logs 7 (growth_logs example_world) \<noteq> []
   \<and> str_int 7 = ''7''
   \<and> (\<exists>fig. snd (get_growth_chart example_world 7) = Inr (HTMLResponse (To_html fig False ''cdn'') 200)
    \<and> plot fig = Line
    \<and> markers fig
    \<and> title fig = ''Tomato Growth - Lot '' @ str_int 7
    \<and> x_column fig = ''log_date'' \<and> map_of (labels fig) (x_column fig) = Some ''Date''
    \<and> y_column fig = ''height_cm'' \<and> map_of (labels fig) (y_column fig) = Some ''Height (cm)''
    \<and> rangeselector_buttons fig =
        [\<lparr>button_count = Some 7, button_label = Some ''1w'',
          button_step = ''day'', button_stepmode = Some ''backward''\<rparr>,
         \<lparr>button_count = Some 1, button_label = Some ''1m'',
          button_step = ''month'', button_stepmode = Some ''backward''\<rparr>,
         \<lparr>button_count = None, button_label = None,
          button_step = ''all'', button_stepmode = None\<rparr>]
    \<and> rangeslider_visible fig = Some True
    \<and> xaxis_type fig = Some ''date''
    \<and> hovermode fig = Some ''x unified''
    \<and> hovertemplate fig =
        Some ''<b>Date:</b> %{x|%Y-%m-%d}<br><b>Height:</b> %{y:.1f} cm<br><extra></extra>'')"
proof -
  note h = example_world_engine example_world_connect [of example_engine]
    example_world_execute [of query_text "[(''lot_id'', 7)]"] select_example_lot7_nonempty
  show ?thesis
    by (intro conjI h str_int_7 chart_layout [OF h])
qed

subsection \<open>The body of the not-found response\<close>

text \<open>
  Claim C10. Every response with status 404 has the one body
  \<open><h2>No data found for this lot ID</h2>\<close>: two such responses, for any two lot
  identifiers and any two worlds, have the same body, which does not mention the lot.
\<close>

theorem not_found_body_fixed:
  fixes w w' :: "('d::linorder) world"
  assumes "snd (get_growth_chart w lot) = Inr (HTMLResponse body 404)"
    and "snd (get_growth_chart w' lot') = Inr (HTMLResponse body' 404)"
  shows "body = Markup ''<h2>No data found for this lot ID</h2>'' \<and> body' = body"
proof -
  have *: "b = Markup ''<h2>No data found for this lot ID</h2>''"
    if res: "snd (get_growth_chart v l) = Inr (HTMLResponse b 404)" for v :: "'d world" and l b
  proof -
    obtain eng where up: "get_db_engine v = Inr eng" "engine_connect v eng = None"
      "execute_fault v query_text [(''lot_id'', l)] = None"
      using get_growth_chart_InrD [OF res] by blast
    from get_growth_chart_connected [OF up] res show ?thesis
      by (simp split: if_splits)
  qed
  show ?thesis using * [OF assms(1)] * [OF assms(2)] by simp
qed

lemma not_found_example_lot8:
  "snd (get_growth_chart example_world 8) =
     Inr (HTMLResponse (Markup ''<h2>No data found for this lot ID</h2>'') 404)"
  using get_growth_chart_connected [OF example_world_engine example_world_connect example_world_execute, of 8]
  by (simp add: select_example_lot8)

lemma not_found_example_lot2:
  "snd (get_growth_chart example_world 2) =
     Inr (HTMLResponse (Markup ''<h2>No data found for this lot ID</h2>'') 404)"
  using get_growth_chart_connected [OF example_world_engine example_world_connect example_world_execute, of 2]
  by (simp add: select_growth_logs_def example_world_def)

theorem not_found_body_fixed_witness:
  "snd (get_growth_chart example_world 8) =
     Inr (HTMLResponse (Markup ''<h2>No data found for this lot ID</h2>'') 404)
   \<and> snd (get_growth_chart example_world 2) =
     Inr (HTMLResponse (Markup ''<h2>No data found for this lot ID</h2>'') 404)"
  using not_found_body_fixed [OF not_found_example_lot8 not_found_example_lot2]
    not_found_example_lot8 not_found_example_lot2
  by simp

end
